theory Spec2Isabelle
  imports Complex_Main
begin

section \<open>JavaScript values\<close>

text \<open>
  The values that travel through the server: fields of a JSON request body and cells of
  a worksheet. Numbers are integers (the form sends amounts and digits); strings are
  lists of code units below 256. \<open>JUndefined\<close> is what reading a missing property, or a
  hole of a sparse array, yields.
\<close>

datatype jsval = JUndefined | JNull | JBool bool | JNum int | JStr string

text \<open>An object is the list of its own properties in insertion order (keys that are
  array indices, which JavaScript enumerates first, are outside the model).\<close>

type_synonym jsobject = "(string \<times> jsval) list"

text \<open>Truthiness, as \<open>||\<close>, \<open>!\<close> and \<open>if\<close> read a value.\<close>

fun truthy :: "jsval \<Rightarrow> bool" where
  "truthy JUndefined = False"
| "truthy JNull = False"
| "truthy (JBool b) = b"
| "truthy (JNum n) = (n \<noteq> 0)"
| "truthy (JStr s) = (s \<noteq> [])"

text \<open>\<open>Number.prototype.toString\<close> on an integer: decimal digits, a minus sign first.
  This is the text for integers below \<open>10^21\<close> in absolute value; from there on the
  language writes an exponent, which the model does not.\<close>

fun showNat :: "nat \<Rightarrow> string" where
  "showNat n =
     (if n < 10 then [''0123456789'' ! n]
      else showNat (n div 10) @ [''0123456789'' ! (n mod 10)])"

declare showNat.simps [simp del]

definition showInt :: "int \<Rightarrow> string" where
  "showInt i = (if i < 0 then CHR ''-'' # showNat (nat (- i)) else showNat (nat i))"

text \<open>\<open>String(v)\<close>.\<close>

fun jsString :: "jsval \<Rightarrow> string" where
  "jsString JUndefined = ''undefined''"
| "jsString JNull = ''null''"
| "jsString (JBool b) = (if b then ''true'' else ''false'')"
| "jsString (JNum n) = showInt n"
| "jsString (JStr s) = s"

text \<open>\<open>String.prototype.trim\<close>: tab, line feed, vertical tab, form feed, carriage
  return, space and no-break space are stripped from both ends.\<close>

definition isWhitespace :: "char \<Rightarrow> bool" where
  "isWhitespace c = (of_char c \<in> {9, 10, 11, 12, 13, 32, 160 :: nat})"

definition trim :: "string \<Rightarrow> string" where
  "trim s = rev (dropWhile isWhitespace (rev (dropWhile isWhitespace s)))"

text \<open>Property read \<open>obj[k]\<close> and property write \<open>obj[k] = v\<close>; a write to an existing
  key keeps the key's place in the enumeration order.\<close>

fun objGet :: "jsobject \<Rightarrow> string \<Rightarrow> jsval" where
  "objGet [] k = JUndefined"
| "objGet ((k', v) # ps) k = (if k' = k then v else objGet ps k)"

fun objSet :: "jsobject \<Rightarrow> string \<Rightarrow> jsval \<Rightarrow> jsobject" where
  "objSet [] k v = [(k, v)]"
| "objSet ((k', v') # ps) k v = (if k' = k then (k, v) # ps else (k', v') # objSet ps k v)"

definition objectKeys :: "jsobject \<Rightarrow> string list" where
  "objectKeys obj = map fst obj"

definition objectValues :: "jsobject \<Rightarrow> jsval list" where
  "objectValues obj = map snd obj"

section \<open>The OTP store and its three handlers\<close>

text \<open>\<open>otpStore\<close> is a \<open>Map\<close> from the mobile number to the record that \<open>/send-otp\<close>
  stores. \<open>Date.now()\<close> is an integer number of milliseconds.\<close>

record otpData =
  otp :: string
  timestamp :: int
  attempts :: nat
  verified :: bool

type_synonym otpStore = "string \<rightharpoonup> otpData"

definition OTP_RESEND_COOLDOWN :: int where
  "OTP_RESEND_COOLDOWN = 2 * 60 * 1000"

text \<open>\<open>generateOTP(length = 6)\<close>; the draw of \<open>Math.random()\<close> is the argument \<open>rnd\<close>.
  The sum and the products are exact here and rounded to doubles in the source, so for
  some draws the source's code is the next integer. Nothing below depends on the value
  of the code, only on its being the text of a number.\<close>

definition generateOTP :: "int \<Rightarrow> real \<Rightarrow> string" where
  "generateOTP len rnd =
     showInt \<lfloor>10 powi (len - 1) + rnd * 9 * 10 powi (len - 1)\<rfloor>"

text \<open>\<open>sendOTPViaThirdParty\<close> logs the code and returns \<open>{ success: true }\<close>; the call to
  a real service is commented out in the source.\<close>

definition sendOTPViaThirdParty :: "string \<Rightarrow> string \<Rightarrow> bool" where
  "sendOTPViaThirdParty mobile code = True"

text \<open>The test \<open>/^[0-9]{10}$/\<close>.\<close>

definition isMobile :: "string \<Rightarrow> bool" where
  "isMobile m = (length m = 10 \<and> list_all (\<lambda>c. c \<in> set ''0123456789'') m)"

text \<open>\<open>s.padStart(n, c)\<close> with a one-character filler, and
  \<open>mobile.slice(-4).padStart(10, '*')\<close>.\<close>

definition padStart :: "nat \<Rightarrow> char \<Rightarrow> string \<Rightarrow> string" where
  "padStart n c s = replicate (n - length s) c @ s"

definition maskMobile :: "string \<Rightarrow> string" where
  "maskMobile m = padStart 10 (CHR ''*'') (drop (length m - 4) m)"

text \<open>\<open>Math.ceil(x / 1000)\<close> on an integer \<open>x\<close>.\<close>

definition ceilSeconds :: "int \<Rightarrow> int" where
  "ceilSeconds x = - ((- x) div 1000)"

text \<open>The responses of \<open>POST /send-otp\<close>: 400, 429 with \<open>remainingTime\<close>, 500 and 200
  with the masked number.\<close>

datatype sendOtpResponse =
    InvalidMobile
  | RateLimited int
  | SendFailed
  | OtpSent string

text \<open>The handler of \<open>POST /send-otp\<close>. The fields \<open>mobile\<close> and \<open>otp\<close> of a request body
  are strings or missing (\<open>None\<close>); \<open>now\<close> is \<open>Date.now()\<close>.\<close>

definition sendOtp :: "int \<Rightarrow> real \<Rightarrow> string option \<Rightarrow> otpStore \<Rightarrow> sendOtpResponse \<times> otpStore" where
  "sendOtp now rnd mobile store =
     (case mobile of
        None \<Rightarrow> (InvalidMobile, store)
      | Some m \<Rightarrow>
          if m = [] \<or> \<not> isMobile m then (InvalidMobile, store)
          else
            (case (case store m of
                     None \<Rightarrow> None
                   | Some existingOTP \<Rightarrow>
                       (let timeSinceLastOTP = now - timestamp existingOTP in
                        if timeSinceLastOTP < OTP_RESEND_COOLDOWN
                        then Some (ceilSeconds (OTP_RESEND_COOLDOWN - timeSinceLastOTP))
                        else None)) of
               Some remainingSeconds \<Rightarrow> (RateLimited remainingSeconds, store)
             | None \<Rightarrow>
                 (let code = generateOTP 6 rnd;
                      store' = store(m \<mapsto> \<lparr>otp = code, timestamp = now, attempts = 0, verified = False\<rparr>)
                  in if \<not> sendOTPViaThirdParty m code then (SendFailed, store')
                     else (OtpSent (maskMobile m), store'))))"

text \<open>The responses of \<open>POST /verify-otp\<close>, in the order of the handler's checks:
  \<open>Mobile and OTP required\<close>, \<open>OTP expired or not sent\<close>, \<open>OTP expired\<close>,
  \<open>Too many attempts. Request new OTP\<close>, \<open>Invalid OTP\<close> (all 400) and the 200.\<close>

datatype verifyOtpResponse =
    MissingFields
  | NotFound
  | Expired
  | TooManyAttempts
  | InvalidOtp
  | Verified

definition verifyOtp :: "int \<Rightarrow> string option \<Rightarrow> string option \<Rightarrow> otpStore \<Rightarrow> verifyOtpResponse \<times> otpStore" where
  "verifyOtp now mobile code store =
     (case (mobile, code) of
        (Some m, Some c) \<Rightarrow>
          if m = [] \<or> c = [] then (MissingFields, store)
          else
            (case store m of
               None \<Rightarrow> (NotFound, store)
             | Some d \<Rightarrow>
                 if now - timestamp d > 10 * 60 * 1000 then (Expired, store(m := None))
                 else if attempts d \<ge> 3 then (TooManyAttempts, store(m := None))
                 else if otp d \<noteq> trim c then (InvalidOtp, store(m \<mapsto> d\<lparr>attempts := attempts d + 1\<rparr>))
                 else (Verified, store(m \<mapsto> d\<lparr>verified := True\<rparr>)))
      | _ \<Rightarrow> (MissingFields, store))"

section \<open>The admission gate of the e-mail sends\<close>

text \<open>\<open>emailActive\<close> and \<open>emailQueue\<close>. A queued element is the \<open>resolve\<close> function of a
  waiting caller; the model stores the caller's identity \<open>'w\<close> instead.
  \<open>EMAIL_CONCURRENCY\<close> is \<open>Number(process.env.EMAIL_CONCURRENCY || 2)\<close>: the environment
  variable is unset (or empty) or holds an integer.\<close>

record 'w gate =
  emailActive :: int
  emailQueue :: "'w list"


text \<open>\<open>acquireEmailSlot\<close>: the flag tells whether the promise is resolved at once
  (\<open>True\<close>) or the caller is queued.\<close>

definition acquireEmailSlot :: "int \<Rightarrow> 'w \<Rightarrow> 'w gate \<Rightarrow> bool \<times> 'w gate" where
  "acquireEmailSlot conc w g =
     (if emailActive g < conc then (True, g\<lparr>emailActive := emailActive g + 1\<rparr>)
      else (False, g\<lparr>emailQueue := emailQueue g @ [w]\<rparr>))"

text \<open>\<open>releaseEmailSlot\<close>: the first component is the queued caller that is resumed, if
  there is one.\<close>

definition releaseEmailSlot :: "'w gate \<Rightarrow> 'w option \<times> 'w gate" where
  "releaseEmailSlot g =
     (let g1 = g\<lparr>emailActive := max 0 (emailActive g - 1)\<rparr> in
      case emailQueue g1 of
        [] \<Rightarrow> (None, g1)
      | nxt # rest \<Rightarrow> (Some nxt, g1\<lparr>emailActive := emailActive g1 + 1, emailQueue := rest\<rparr>))"

text \<open>
  The runs of the gate: any sequence of \<open>acquireEmailSlot\<close> and \<open>releaseEmailSlot\<close>
  calls from the initial state. Beside the gate a run carries the sends in flight, that
  is the callers that were admitted at once or resumed by a release and whose slot has
  not been released, and two logs: the callers that were queued, in the order of their
  calls, and the callers that a release resumed, in the order of the releases. A
  release call ends one of the sends in flight (the source makes it in the \<open>finally\<close> of
  \<open>sendDailyEmailForDate\<close>, after the \<open>await acquireEmailSlot()\<close> of that send); made
  when no send is in flight it ends none.
\<close>

inductive gateRun :: "int \<Rightarrow> 'w gate \<Rightarrow> 'w list \<Rightarrow> 'w list \<Rightarrow> 'w list \<Rightarrow> bool" for conc :: int where
  start: "gateRun conc \<lparr>emailActive = 0, emailQueue = []\<rparr> [] [] []"
| acquire: "gateRun conc g inFlight queued resumed \<Longrightarrow> acquireEmailSlot conc w g = (admitted, g') \<Longrightarrow>
     gateRun conc g' (if admitted then inFlight @ [w] else inFlight)
       (if admitted then queued else queued @ [w]) resumed"
| release: "gateRun conc g inFlight queued resumed \<Longrightarrow> inFlight = [] \<or> w \<in> set inFlight \<Longrightarrow>
     releaseEmailSlot g = (handed, g') \<Longrightarrow>
     gateRun conc g' (remove1 w inFlight @ (case handed of None \<Rightarrow> [] | Some v \<Rightarrow> [v])) queued
       (resumed @ (case handed of None \<Rightarrow> [] | Some v \<Rightarrow> [v]))"

section \<open>Sending with retries\<close>

text \<open>What a send does, in order: the \<open>i\<close>-th call of \<open>transporter.sendMail\<close> (counted
  from 0, as the loop variable) and the sleeps, in milliseconds.\<close>

datatype event = SendMail nat | Sleep nat

text \<open>The result \<open>{ ok: true, info }\<close> or \<open>{ ok: false, error: lastErr }\<close>; \<open>lastErr\<close> is
  \<open>null\<close> (\<open>None\<close>) until an attempt has failed. An error is the text \<open>String(err)\<close>.\<close>

datatype 'i retryResult = RetryOk 'i | RetryFailed "string option"

text \<open>The loop of \<open>sendWithRetry\<close> from \<open>i\<close> on (\<open>maxAttempts\<close> is the source's
  parameter \<open>attempts\<close>). The transporter is the function \<open>sendMail\<close>: the outcome of
  its \<open>i\<close>-th call, \<open>Inl\<close> when it throws.\<close>

function sendWithRetryLoop ::
  "(nat \<Rightarrow> string + 'i) \<Rightarrow> nat \<Rightarrow> nat \<Rightarrow> string option \<Rightarrow> event list \<Rightarrow> 'i retryResult \<times> event list" where
  "sendWithRetryLoop sendMail maxAttempts i lastErr tr =
     (if i < maxAttempts then
        (case sendMail i of
           Inr info \<Rightarrow> (RetryOk info, tr @ [SendMail i])
         | Inl err \<Rightarrow>
             sendWithRetryLoop sendMail maxAttempts (i + 1) (Some err)
               (tr @ [SendMail i, Sleep (2 ^ i * 1000)]))
      else (RetryFailed lastErr, tr))"
  by pat_completeness auto
termination
  by (relation "measure (\<lambda>(sendMail, maxAttempts, i, lastErr, tr). maxAttempts - i)") auto

declare sendWithRetryLoop.simps [simp del]

definition sendWithRetry :: "(nat \<Rightarrow> string + 'i) \<Rightarrow> nat \<Rightarrow> 'i retryResult \<times> event list" where
  "sendWithRetry sendMail maxAttempts = sendWithRetryLoop sendMail maxAttempts 0 None []"

definition EMAIL_RETRIES :: "nat option \<Rightarrow> nat" where
  "EMAIL_RETRIES env = (case env of None \<Rightarrow> 3 | Some n \<Rightarrow> n)"

text \<open>The results of \<open>sendDailyEmailForDate\<close>: \<open>{ ok: false, message: 'No file' }\<close>,
  \<open>{ ok: false, error: String(result.error) }\<close> and \<open>{ ok: true, file, info }\<close>.\<close>

datatype 'i dispatchResult = NoFile | Failed string | Delivered string 'i

text \<open>The part of \<open>sendDailyEmailForDate\<close> that runs once \<open>await acquireEmailSlot()\<close> has
  returned: the \<open>try\<close> block and its \<open>finally\<close>. It yields the result, the events of the
  send, the caller that the release resumed and the gate after the release.\<close>

definition sendDailyEmailAdmitted ::
  "(nat \<Rightarrow> string + 'i) \<Rightarrow> nat \<Rightarrow> string \<Rightarrow> 'w gate \<Rightarrow> 'i dispatchResult \<times> event list \<times> 'w option \<times> 'w gate" where
  "sendDailyEmailAdmitted sendMail retries fname g =
     (let (result, tr) = sendWithRetry sendMail retries;
          outcome = (case result of
                       RetryFailed e \<Rightarrow> Failed (case e of None \<Rightarrow> ''null'' | Some err \<Rightarrow> err)
                     | RetryOk info \<Rightarrow> Delivered fname info);
          (handed, g') = releaseEmailSlot g
      in (outcome, tr, handed, g'))"

section \<open>Worksheets and files\<close>

text \<open>
  A worksheet is its name and its rows. A row is the array that
  \<open>ws.getRow(r).values.slice(1)\<close> returns: the values of the cells from column 1 on, a
  cell without a value being a hole of the array (\<open>JUndefined\<close> in the model). The
  rows of the list are rows 1, 2, ... of the sheet, so \<open>ws.rowCount\<close> is the length of
  the list; a row that does not exist has no values. Writing the cells of row 1 makes
  them the first row, \<open>addRow(vals)\<close> puts the cells of \<open>vals\<close> after the last row
  (\<open>addRowValues\<close> below), and \<open>writeFile\<close> followed by \<open>readFile\<close> gives the workbook
  back. A workbook is the list \<open>workbook.worksheets\<close>.
\<close>

type_synonym row = "jsval list"

record worksheet =
  name :: string
  rows :: "row list"

type_synonym workbook = "worksheet list"

type_synonym fileSystem = "string \<rightharpoonup> workbook"

text \<open>The exceptions of the ledger code: a \<open>TypeError\<close> of the language and an error of
  reading or writing a file.\<close>

datatype error = TypeError | IOError

definition existsSync :: "fileSystem \<Rightarrow> string \<Rightarrow> bool" where
  "existsSync fs fname = (fs fname \<noteq> None)"

definition rowCount :: "worksheet \<Rightarrow> nat" where
  "rowCount ws = length (rows ws)"

definition getRowValues :: "worksheet \<Rightarrow> nat \<Rightarrow> row" where
  "getRowValues ws r = (if 1 \<le> r \<and> r \<le> length (rows ws) then rows ws ! (r - 1) else [])"

text \<open>\<open>arr[i]\<close>, and the array methods on an array with holes: \<open>map\<close> does not call its
  function on a hole and leaves the hole, \<open>filter\<close> drops the holes.\<close>

definition cellAt :: "row \<Rightarrow> nat \<Rightarrow> jsval" where
  "cellAt vals i = (if i < length vals then vals ! i else JUndefined)"

definition arrayMap :: "(jsval \<Rightarrow> jsval) \<Rightarrow> row \<Rightarrow> row" where
  "arrayMap f vals = map (\<lambda>v. if v = JUndefined then JUndefined else f v) vals"

definition arrayFilter :: "(jsval \<Rightarrow> bool) \<Rightarrow> row \<Rightarrow> row" where
  "arrayFilter p vals = filter (\<lambda>v. v \<noteq> JUndefined \<and> p v) vals"

text \<open>The row that \<open>addRow(vals)\<close> writes. An array with an element at index 0 fills
  the columns from 1 on. An array with a hole at index 0 is read as numbered from 1:
  its element at index \<open>i\<close> goes to column \<open>i\<close>, one column to the left. The arrays that
  \<open>appendToDailyExcel\<close> passes have an element at index 0.\<close>

definition addRowValues :: "row \<Rightarrow> row" where
  "addRowValues vals =
     (case vals of [] \<Rightarrow> [] | v # rest \<Rightarrow> if v = JUndefined then rest else vals)"

text \<open>\<open>Array.from(new Set(xs))\<close>: the first occurrence of every element, in order.\<close>

definition uniqueInOrder :: "'a list \<Rightarrow> 'a list" where
  "uniqueInOrder xs = rev (remdups (rev xs))"

text \<open>\<open>v || ''\<close>.\<close>

definition orEmpty :: "jsval \<Rightarrow> jsval" where
  "orEmpty v = (if truthy v then v else JStr [])"

section \<open>File names and the field map\<close>

text \<open>A \<open>Date\<close> as \<open>todayFilename\<close> reads it: \<open>getFullYear()\<close>, \<open>getMonth()\<close> (0 to 11) and
  \<open>getDate()\<close>.\<close>

record jsdate =
  fullYear :: int
  monthIndex :: nat
  dayOfMonth :: nat

definition todayFilename :: "jsdate \<Rightarrow> string" where
  "todayFilename d =
     showInt (fullYear d) @ ''-'' @ padStart 2 (CHR ''0'') (showNat (monthIndex d + 1))
       @ ''-'' @ padStart 2 (CHR ''0'') (showNat (dayOfMonth d)) @ ''.xlsx''"

text \<open>\<open>DATA_DIR\<close> is the directory \<open>data\<close> beside the server's source;
  \<open>path.join(dir, file)\<close> and \<open>path.basename(p)\<close> on the paths that occur.\<close>

definition DATA_DIR :: string where
  "DATA_DIR = ''server/data''"

definition pathJoin :: "string \<Rightarrow> string \<Rightarrow> string" where
  "pathJoin dir file = dir @ ''/'' @ file"

definition basename :: "string \<Rightarrow> string" where
  "basename p = rev (takeWhile (\<lambda>c. c \<noteq> CHR ''/'') (rev p))"

definition FIELD_MAP :: "(string \<times> string) list" where
  "FIELD_MAP =
     [(''LoanAmount'', ''LoanAmount''),
      (''MonthlyIncome'', ''MonthlyIncome''),
      (''Mobile'', ''Mobile''),
      (''Email'', ''Email''),
      (''PAN1'', ''PAN''),
      (''DOB'', ''DOB''),
      (''company'', ''Company''),
      (''City'', ''City''),
      (''Pincode'', ''Pincode''),
      (''Occupation'', ''Occupation'')]"

text \<open>\<open>FIELD_MAP[k] || FIELD_MAP[k.trim()] || k\<close>, for the keys \<open>k\<close> that do not name a
  property every object inherits (\<open>constructor\<close>, \<open>toString\<close> and the like): for those
  the source finds the inherited value, and they are outside the model.\<close>

definition targetOf :: "string \<Rightarrow> string" where
  "targetOf k =
     (case map_of FIELD_MAP k of
        Some t \<Rightarrow> t
      | None \<Rightarrow> (case map_of FIELD_MAP (trim k) of Some t \<Rightarrow> t | None \<Rightarrow> k))"

definition normalizeRecord :: "jsobject \<Rightarrow> jsobject" where
  "normalizeRecord raw = foldl (\<lambda>out k. objSet out (targetOf k) (objGet raw k)) [] (objectKeys raw)"

section \<open>Appending to the day's file\<close>

text \<open>The branch of \<open>appendToDailyExcel\<close> for a file that does not exist: a sheet
  \<open>submissions\<close> with the header row and one data row. \<open>nowIso\<close> is
  \<open>new Date().toISOString()\<close>.\<close>

definition freshWorkbook :: "jsobject \<Rightarrow> string \<Rightarrow> workbook" where
  "freshWorkbook rcd nowIso =
     (let headers = filter (\<lambda>h. h \<noteq> []) (map trim (objectKeys rcd)) @ [''added_at''];
          rowValues = map (\<lambda>h. if h = ''added_at'' then JStr nowIso else orEmpty (objGet rcd h)) headers
      in [\<lparr>name = ''submissions'', rows = [map JStr headers, rowValues]\<rparr>])"

text \<open>The branch for a file that exists, given the workbook read from it. It fails with
  a \<open>TypeError\<close> when the workbook has no sheet (\<open>worksheet\<close> is \<open>undefined\<close>) and when
  the first row has no value (\<open>false.filter\<close>). The headers are strings, kept as
  \<open>JStr\<close> values since they come out of a row.\<close>

definition existingHeadersOf :: "row \<Rightarrow> row" where
  "existingHeadersOf firstRow =
     arrayFilter (\<lambda>h. h \<noteq> JStr [])
       (arrayMap (\<lambda>h. if h = JNull then JStr [] else JStr (jsString h)) firstRow)"

definition mergedHeaders :: "row \<Rightarrow> jsobject \<Rightarrow> row" where
  "mergedHeaders existingHeaders rcd =
     (let incomingKeys = map JStr (objectKeys rcd);
          allHeaders = uniqueInOrder (existingHeaders @ incomingKeys);
          allHeaders = filter (\<lambda>h. h \<noteq> JStr [])
                         (map (\<lambda>h. if h = JNull \<or> h = JUndefined then JStr []
                                    else JStr (trim (jsString h))) allHeaders)
      in if JStr ''added_at'' \<in> set allHeaders then allHeaders else allHeaders @ [JStr ''added_at''])"

definition existingDataOf :: "worksheet \<Rightarrow> row \<Rightarrow> jsobject list" where
  "existingDataOf ws existingHeaders =
     concat (map (\<lambda>r.
        let vals = getRowValues ws r;
            mapped = foldl (\<lambda>m i. objSet m (jsString (existingHeaders ! i))
                                    (if cellAt vals i \<noteq> JUndefined then cellAt vals i else JStr []))
                       [] [0 ..< length existingHeaders]
        in if list_ex (\<lambda>v. v \<noteq> JStr [] \<and> v \<noteq> JNull \<and> v \<noteq> JUndefined) (objectValues mapped)
           then [mapped] else [])
       [2 ..< rowCount ws + 1])"

definition mergeIntoWorkbook :: "workbook \<Rightarrow> jsobject \<Rightarrow> string \<Rightarrow> error + workbook" where
  "mergeIntoWorkbook wb rcd nowIso =
     (case wb of
        [] \<Rightarrow> Inl TypeError
      | ws # others \<Rightarrow>
          (let firstRow = getRowValues ws 1 in
           if firstRow = [] then Inl TypeError
           else
             (let existingHeaders = existingHeadersOf firstRow;
                  allHeaders = mergedHeaders existingHeaders rcd;
                  existingData = existingDataOf ws existingHeaders;
                  oldName = (if name ws = [] then ''submissions'' else name ws);
                  prevRows = map (\<lambda>prev. map (\<lambda>h. orEmpty (objGet prev (jsString h))) allHeaders)
                               existingData;
                  newRowVals = map (\<lambda>h. if h = JStr ''added_at'' then JStr nowIso
                                          else orEmpty (objGet rcd (jsString h))) allHeaders
              in Inr (others @ [\<lparr>name = oldName, rows = [allHeaders] @ prevRows @ [newRowVals]\<rparr>]))))"

text \<open>\<open>appendToDailyExcel(record, date)\<close>. The condition of its \<open>if\<close> is
  \<open>false && fs.existsSync(fname)\<close>, as in the source. \<open>writeOk\<close> tells whether
  \<open>workbook.xlsx.writeFile\<close> succeeds; when it throws, the file is taken to be as it was.\<close>

definition appendToDailyExcel ::
  "jsobject \<Rightarrow> jsdate \<Rightarrow> string \<Rightarrow> bool \<Rightarrow> fileSystem \<Rightarrow> error + (string \<times> fileSystem)" where
  "appendToDailyExcel rcd date nowIso writeOk fs =
     (let fname = pathJoin DATA_DIR (todayFilename date) in
      case (if False \<and> existsSync fs fname
            then (case fs fname of
                    None \<Rightarrow> Inl IOError
                  | Some wb \<Rightarrow> mergeIntoWorkbook wb rcd nowIso)
            else Inr (freshWorkbook rcd nowIso)) of
        Inl e \<Rightarrow> Inl e
      | Inr workbook \<Rightarrow>
          if writeOk then Inr (fname, fs(fname \<mapsto> workbook)) else Inl IOError)"

text \<open>The data rows of the day's file: the rows under the header of its first sheet.\<close>

definition headerOf :: "fileSystem \<Rightarrow> string \<Rightarrow> row" where
  "headerOf fs fname = (case fs fname of Some (ws # _) \<Rightarrow> getRowValues ws 1 | _ \<Rightarrow> [])"

definition dataRowsOf :: "fileSystem \<Rightarrow> string \<Rightarrow> row list" where
  "dataRowsOf fs fname = (case fs fname of Some (ws # _) \<Rightarrow> drop 1 (rows ws) | _ \<Rightarrow> [])"

section \<open>The start of a dispatch\<close>

text \<open>\<open>makeTransporter\<close> throws when the host, the user or the password is missing from
  the environment (\<open>smtpConfigured\<close> is false).\<close>

definition makeTransporter :: "bool \<Rightarrow> string + unit" where
  "makeTransporter smtpConfigured =
     (if \<not> smtpConfigured then Inl ''Error: SMTP credentials missing in env'' else Inr ())"

text \<open>The part of \<open>sendDailyEmailForDate\<close> up to \<open>await acquireEmailSlot()\<close>: it returns
  \<open>No file\<close>, throws, is admitted at once or is queued.\<close>

datatype admission = ReturnedNoFile | Threw string | Admitted | Queued

definition sendDailyEmailBegin ::
  "fileSystem \<Rightarrow> bool \<Rightarrow> int \<Rightarrow> 'w \<Rightarrow> jsdate \<Rightarrow> 'w gate \<Rightarrow> admission \<times> 'w gate" where
  "sendDailyEmailBegin fs smtpConfigured conc w date g =
     (let fname = pathJoin DATA_DIR (todayFilename date) in
      if \<not> existsSync fs fname then (ReturnedNoFile, g)
      else
        (case makeTransporter smtpConfigured of
           Inl err \<Rightarrow> (Threw err, g)
         | Inr transporter \<Rightarrow>
             (let (admitted, g') = acquireEmailSlot conc w g
              in (if admitted then Admitted else Queued, g'))))"

section \<open>Accepting a submission\<close>

text \<open>The responses of \<open>POST /submit-loan\<close>: the 400 \<open>Mobile number not verified\<close>, the
  200 with the file's name, the \<open>email\<close> flag and the \<open>emailError\<close>, and the 500.\<close>

datatype submitResponse =
    NotVerified
  | Accepted string bool "string option"
  | SubmitFailed error

text \<open>The handler of \<open>POST /submit-loan\<close> on the OTP store and the files. The record of
  a \<open>mobile\<close> that is not a string is not in the store. The handler waits for
  \<open>sendDailyEmailForDate\<close>; of that call only whether it throws, which it does when
  \<open>makeTransporter\<close> throws, reaches the response.\<close>

definition otpDataOf :: "otpStore \<Rightarrow> jsval \<Rightarrow> otpData option" where
  "otpDataOf store mobile = (case mobile of JStr m \<Rightarrow> store m | _ \<Rightarrow> None)"

definition otpDelete :: "otpStore \<Rightarrow> jsval \<Rightarrow> otpStore" where
  "otpDelete store mobile = (case mobile of JStr m \<Rightarrow> store(m := None) | _ \<Rightarrow> store)"

definition submitLoan ::
  "jsobject \<Rightarrow> jsdate \<Rightarrow> string \<Rightarrow> bool \<Rightarrow> bool \<Rightarrow> otpStore \<times> fileSystem
     \<Rightarrow> submitResponse \<times> otpStore \<times> fileSystem" where
  "submitLoan body date nowIso writeOk smtpConfigured state =
     (let (store, fs) = state;
          mobile = objGet body ''mobile''
      in case otpDataOf store mobile of
           None \<Rightarrow> (NotVerified, store, fs)
         | Some d \<Rightarrow>
             if \<not> verified d then (NotVerified, store, fs)
             else
               (case appendToDailyExcel (normalizeRecord body) date nowIso writeOk fs of
                  Inl e \<Rightarrow> (SubmitFailed e, store, fs)
                | Inr (filePath, fs') \<Rightarrow>
                    (let store' = otpDelete store mobile in
                     case makeTransporter smtpConfigured of
                       Inl emailErr \<Rightarrow> (Accepted (basename filePath) False (Some emailErr), store', fs')
                     | Inr transporter \<Rightarrow> (Accepted (basename filePath) True None, store', fs'))))"

section \<open>Repairing a file\<close>

text \<open>The condition of \<open>repairXlsxFile\<close> on the first row: \<open>firstRowVals[1]\<close> is the
  first cell (index 0 of the row) and \<open>firstRowVals[2]\<close> the second.\<close>

definition shiftedHeader :: "row \<Rightarrow> bool" where
  "shiftedHeader firstRow =
     ((cellAt firstRow 0 = JNull \<or> cellAt firstRow 0 = JStr [] \<or> cellAt firstRow 0 = JUndefined)
      \<and> truthy (cellAt firstRow 1))"

text \<open>The body of the \<open>forEach\<close> for one sheet: \<open>None\<close> when the condition fails and the
  sheet is left alone, else the sheet that replaces it. With no new header no cell of
  row 1 is written, and the first \<open>addRow\<close> fills row 1.\<close>

definition repairSheet :: "worksheet \<Rightarrow> worksheet option" where
  "repairSheet ws =
     (let firstRow = getRowValues ws 1 in
      if shiftedHeader firstRow then
        (let oldHeaders = arrayMap (\<lambda>h. if h = JNull \<or> h = JUndefined then JStr []
                                         else JStr (jsString h)) firstRow;
             newHeaders = arrayFilter (\<lambda>h. h \<noteq> JStr [])
                            (arrayMap (\<lambda>h. if h = JNull \<or> h = JUndefined then JStr []
                                            else JStr (trim (jsString h))) oldHeaders);
             dataRows = map (\<lambda>r. arrayMap (\<lambda>v. if v = JUndefined then JStr [] else v)
                                    (getRowValues ws r))
                          [2 ..< rowCount ws + 1];
             newName = (if name ws = [] then ''submissions'' else name ws);
             shift = (if length oldHeaders = length newHeaders + 1 then 1 else 0 :: nat);
             newRows = map (\<lambda>vals.
                              let shifted = drop shift vals
                              in addRowValues
                                   (shifted @ replicate (length newHeaders - length shifted) (JStr [])))
                         dataRows
         in Some \<lparr>name = newName,
                  rows = (if newHeaders = [] then [] else [newHeaders]) @ newRows\<rparr>)
      else None)"





section \<open>The invariant of the OTP store\<close>

text \<open>Every record of the store is filed under a ten-digit number and holds a
  non-empty code. The store starts empty and the three handlers keep the invariant
  (lemmas \<open>otpStoreOk_empty\<close> to \<open>otpStoreOk_submitLoan\<close> below).\<close>

definition otpStoreOk :: "otpStore \<Rightarrow> bool" where
  "otpStoreOk store = (\<forall>m d. store m = Some d \<longrightarrow> isMobile m \<and> otp d \<noteq> [])"

section \<open>Properties of the OTP handlers\<close>

lemma showNat_nonempty: "showNat n \<noteq> []"
  by (subst showNat.simps) simp

lemma showInt_nonempty: "showInt i \<noteq> []"
  by (simp add: showInt_def showNat_nonempty)

lemma generateOTP_nonempty: "generateOTP len rnd \<noteq> []"
  by (simp add: generateOTP_def showInt_nonempty)

lemma isMobile_nonempty: "isMobile m \<Longrightarrow> m \<noteq> []"
  by (auto simp: isMobile_def)

lemma ceilSeconds_mono: "x \<le> y \<Longrightarrow> ceilSeconds x \<le> ceilSeconds y"
  unfolding ceilSeconds_def by (simp add: zdiv_mono1)

lemma ceilSeconds_step: "x + 1000 \<le> y \<Longrightarrow> ceilSeconds x < ceilSeconds y"
  unfolding ceilSeconds_def by linarith

lemma otpStoreOk_empty: "otpStoreOk Map.empty"
  by (simp add: otpStoreOk_def)

lemma otpStoreOk_sendOtp: "otpStoreOk store \<Longrightarrow> otpStoreOk (snd (sendOtp now rnd mobile store))"
  by (auto simp: otpStoreOk_def sendOtp_def Let_def generateOTP_nonempty split: option.splits if_splits)

lemma otpStoreOk_verifyOtp: "otpStoreOk store \<Longrightarrow> otpStoreOk (snd (verifyOtp now mobile code store))"
  by (auto simp: otpStoreOk_def verifyOtp_def split: option.splits if_splits)

lemma otpStoreOk_submitLoan:
  "otpStoreOk store \<Longrightarrow> otpStoreOk (fst (snd (submitLoan body date nowIso writeOk smtp (store, fs))))"
  by (auto simp: otpStoreOk_def submitLoan_def otpDelete_def Let_def split: option.splits if_splits sum.splits jsval.splits prod.splits)
lemma sendOtp_rejects:
  assumes "isMobile m" and "store m = Some d" and "now - timestamp d < OTP_RESEND_COOLDOWN"
  shows "sendOtp now rnd (Some m) store =
           (RateLimited (ceilSeconds (OTP_RESEND_COOLDOWN - (now - timestamp d))), store)"
  using assms isMobile_nonempty[of m] by (simp add: sendOtp_def Let_def)

text \<open>
  Claim C9, as amended. For a ten-digit number with a record, a \<open>/send-otp\<close> call made
  less than two minutes after the record's timestamp is answered 429 with
  \<open>remainingTime = ceil((120000 - elapsed) / 1000)\<close> and leaves the store as it is. Of
  two such calls the later one never gets a larger \<open>remainingTime\<close>, and it gets a
  strictly smaller one when it comes at least a second after the first.
\<close>

theorem sendOtp_cooldown:
  assumes "isMobile m" and "store m = Some d"
    and "now - timestamp d < OTP_RESEND_COOLDOWN"
    and "now \<le> later" and "later - timestamp d < OTP_RESEND_COOLDOWN"
  shows "sendOtp now rnd (Some m) store =
           (RateLimited (ceilSeconds (OTP_RESEND_COOLDOWN - (now - timestamp d))), store)
       \<and> sendOtp later rnd' (Some m) store =
           (RateLimited (ceilSeconds (OTP_RESEND_COOLDOWN - (later - timestamp d))), store)
       \<and> ceilSeconds (OTP_RESEND_COOLDOWN - (later - timestamp d))
           \<le> ceilSeconds (OTP_RESEND_COOLDOWN - (now - timestamp d))
       \<and> (now + 1000 \<le> later \<longrightarrow>
            ceilSeconds (OTP_RESEND_COOLDOWN - (later - timestamp d))
              < ceilSeconds (OTP_RESEND_COOLDOWN - (now - timestamp d)))"
proof -
  have a: "sendOtp now rnd (Some m) store =
           (RateLimited (ceilSeconds (OTP_RESEND_COOLDOWN - (now - timestamp d))), store)"
    using assms(1-3) by (rule sendOtp_rejects)
  have b: "sendOtp later rnd' (Some m) store =
           (RateLimited (ceilSeconds (OTP_RESEND_COOLDOWN - (later - timestamp d))), store)"
    using assms(1,2,5) by (rule sendOtp_rejects)
  have c: "ceilSeconds (OTP_RESEND_COOLDOWN - (later - timestamp d))
           \<le> ceilSeconds (OTP_RESEND_COOLDOWN - (now - timestamp d))"
    using assms(4) by (intro ceilSeconds_mono) simp
  have d: "now + 1000 \<le> later \<Longrightarrow>
            ceilSeconds (OTP_RESEND_COOLDOWN - (later - timestamp d))
              < ceilSeconds (OTP_RESEND_COOLDOWN - (now - timestamp d))"
    by (intro ceilSeconds_step) simp
  from a b c d show ?thesis by blast
qed

theorem sendOtp_cooldown_witness:
  "isMobile ''9999999999''
   \<and> sendOtp 1500 0 (Some ''9999999999'')
        [''9999999999'' \<mapsto> \<lparr>otp = ''123456'', timestamp = 0, attempts = 0, verified = False\<rparr>]
      = (RateLimited 119, [''9999999999'' \<mapsto> \<lparr>otp = ''123456'', timestamp = 0, attempts = 0, verified = False\<rparr>])
   \<and> sendOtp 2500 0 (Some ''9999999999'')
        [''9999999999'' \<mapsto> \<lparr>otp = ''123456'', timestamp = 0, attempts = 0, verified = False\<rparr>]
      = (RateLimited 118, [''9999999999'' \<mapsto> \<lparr>otp = ''123456'', timestamp = 0, attempts = 0, verified = False\<rparr>])"
proof -
  have m: "isMobile ''9999999999''" by (simp add: isMobile_def)
  show ?thesis
    using m sendOtp_cooldown [OF m, of "[''9999999999'' \<mapsto> \<lparr>otp = ''123456'', timestamp = 0, attempts = 0, verified = False\<rparr>]"
        "\<lparr>otp = ''123456'', timestamp = 0, attempts = 0, verified = False\<rparr>" 1500 2500 0 0]
    by (simp add: OTP_RESEND_COOLDOWN_def ceilSeconds_def)
qed

text \<open>Two rejected calls 100 ms apart both report 120 seconds: the remaining time is
  not strictly decreasing as time advances.\<close>

theorem sendOtp_cooldown_counterexample:
  "sendOtp 100 0 (Some ''9999999999'')
        [''9999999999'' \<mapsto> \<lparr>otp = ''123456'', timestamp = 0, attempts = 0, verified = False\<rparr>]
      = (RateLimited 120, [''9999999999'' \<mapsto> \<lparr>otp = ''123456'', timestamp = 0, attempts = 0, verified = False\<rparr>])
   \<and> sendOtp 200 0 (Some ''9999999999'')
        [''9999999999'' \<mapsto> \<lparr>otp = ''123456'', timestamp = 0, attempts = 0, verified = False\<rparr>]
      = (RateLimited 120, [''9999999999'' \<mapsto> \<lparr>otp = ''123456'', timestamp = 0, attempts = 0, verified = False\<rparr>])"
  by (simp add: sendOtp_def isMobile_def OTP_RESEND_COOLDOWN_def ceilSeconds_def)

text \<open>
  Claim C10. For a record of the store that has not expired and has fewer than three
  failed attempts, \<open>/verify-otp\<close> with the submitted string \<open>s\<close> succeeds exactly when
  \<open>s.trim()\<close> equals the stored code; it then marks the record verified. So a code
  that differs from the stored one by surrounding whitespace only is accepted.
\<close>

theorem verifyOtp_trimmed:
  assumes "otpStoreOk store" and "store m = Some d"
    and "now - timestamp d \<le> 10 * 60 * 1000" and "attempts d < 3"
  shows "(fst (verifyOtp now (Some m) (Some s) store) = Verified) = (trim s = otp d)
       \<and> (trim s = otp d \<longrightarrow>
            verifyOtp now (Some m) (Some s) store = (Verified, store(m \<mapsto> d\<lparr>verified := True\<rparr>)))"
proof -
  from assms(1,2) have m: "m \<noteq> []" and c: "otp d \<noteq> []"
    by (auto simp: otpStoreOk_def dest: isMobile_nonempty)
  have t: "trim [] = []" by (simp add: trim_def)
  show ?thesis
  proof (cases "s = []")
    case True
    with c t show ?thesis by (auto simp: verifyOtp_def)
  next
    case False
    with m assms(2-4) show ?thesis by (auto simp: verifyOtp_def)
  qed
qed

theorem verifyOtp_trimmed_witness:
  "otpStoreOk [''9999999999'' \<mapsto> \<lparr>otp = ''123456'', timestamp = 0, attempts = 0, verified = False\<rparr>]
   \<and> trim '' 123456  '' = ''123456''
   \<and> verifyOtp 5000 (Some ''9999999999'') (Some '' 123456  '')
        [''9999999999'' \<mapsto> \<lparr>otp = ''123456'', timestamp = 0, attempts = 0, verified = False\<rparr>]
      = (Verified, [''9999999999'' \<mapsto> \<lparr>otp = ''123456'', timestamp = 0, attempts = 0, verified = True\<rparr>])"
proof -
  have ok: "otpStoreOk [''9999999999'' \<mapsto> \<lparr>otp = ''123456'', timestamp = 0, attempts = 0, verified = False\<rparr>]"
    by (simp add: otpStoreOk_def isMobile_def)
  have tr: "trim '' 123456  '' = ''123456''"
    by (simp add: trim_def isWhitespace_def)
  show ?thesis
    using ok tr verifyOtp_trimmed [OF ok, of "''9999999999''"
        "\<lparr>otp = ''123456'', timestamp = 0, attempts = 0, verified = False\<rparr>" 5000 "'' 123456  ''"]
    by simp
qed




lemma verifyOtp_expired:
  assumes "m \<noteq> []" and "c \<noteq> []" and "store m = Some d" and "now - timestamp d > 10 * 60 * 1000"
  shows "verifyOtp now (Some m) (Some c) store = (Expired, store(m := None))"
  using assms by (auto simp: verifyOtp_def)




section \<open>Properties of the submission handler\<close>

lemma appendToDailyExcel_eq:
  "appendToDailyExcel rcd date nowIso writeOk fs =
     (if writeOk
      then Inr (pathJoin DATA_DIR (todayFilename date),
                fs(pathJoin DATA_DIR (todayFilename date) \<mapsto> freshWorkbook rcd nowIso))
      else Inl IOError)"
  by (simp add: appendToDailyExcel_def Let_def)

lemma submitLoan_cases:
  assumes "objGet body ''mobile'' = JStr m"
  shows "submitLoan body date nowIso writeOk smtp (store, fs) =
     (case store m of
        None \<Rightarrow> (NotVerified, store, fs)
      | Some d \<Rightarrow>
          if \<not> verified d then (NotVerified, store, fs)
          else if \<not> writeOk then (SubmitFailed IOError, store, fs)
          else (Accepted (basename (pathJoin DATA_DIR (todayFilename date))) smtp
                  (if smtp then None else Some ''Error: SMTP credentials missing in env''),
                store(m := None),
                fs(pathJoin DATA_DIR (todayFilename date) \<mapsto> freshWorkbook (normalizeRecord body) nowIso)))"
  using assms
  by (simp add: submitLoan_def appendToDailyExcel_eq otpDataOf_def otpDelete_def makeTransporter_def
      split: option.splits)

text \<open>
  Claim C5, as amended. \<open>/submit-loan\<close> accepts exactly when the store has a verified
  record for the request's \<open>mobile\<close>. It removes the record only on that path, once the
  append has succeeded, and then whether or not the e-mail dispatch throws. A missing
  or unverified record is answered \<open>Mobile number not verified\<close> with the store
  untouched, and when the append fails the verified record stays.
\<close>

theorem submitLoan_consume:
  assumes "objGet body ''mobile'' = JStr m"
  shows "(store m = None \<longrightarrow>
            submitLoan body date nowIso writeOk smtp (store, fs) = (NotVerified, store, fs))
       \<and> (\<forall>d. store m = Some d \<and> \<not> verified d \<longrightarrow>
            submitLoan body date nowIso writeOk smtp (store, fs) = (NotVerified, store, fs))
       \<and> (\<forall>d. store m = Some d \<and> verified d \<and> \<not> writeOk \<longrightarrow>
            submitLoan body date nowIso writeOk smtp (store, fs) = (SubmitFailed IOError, store, fs))
       \<and> (\<forall>d. store m = Some d \<and> verified d \<and> writeOk \<longrightarrow>
            fst (submitLoan body date nowIso writeOk smtp (store, fs))
              = Accepted (basename (pathJoin DATA_DIR (todayFilename date))) smtp
                  (if smtp then None else Some ''Error: SMTP credentials missing in env'')
            \<and> fst (snd (submitLoan body date nowIso writeOk smtp (store, fs))) = store(m := None))"
  by (simp add: submitLoan_cases [OF assms])

theorem submitLoan_consume_witness:
  "submitLoan [(''mobile'', JStr ''9999999999''), (''City'', JStr ''Pune'')]
      \<lparr>fullYear = 2024, monthIndex = 0, dayOfMonth = 5\<rparr> ''2024-01-05T10:00:00.000Z'' True True
      ([''9999999999'' \<mapsto> \<lparr>otp = ''123456'', timestamp = 0, attempts = 0, verified = False\<rparr>], Map.empty)
    = (NotVerified,
       [''9999999999'' \<mapsto> \<lparr>otp = ''123456'', timestamp = 0, attempts = 0, verified = False\<rparr>], Map.empty)
   \<and> fst (snd (submitLoan [(''mobile'', JStr ''9999999999''), (''City'', JStr ''Pune'')]
      \<lparr>fullYear = 2024, monthIndex = 0, dayOfMonth = 5\<rparr> ''2024-01-05T10:00:00.000Z'' True True
      ([''9999999999'' \<mapsto> \<lparr>otp = ''123456'', timestamp = 0, attempts = 0, verified = True\<rparr>], Map.empty)))
    = Map.empty
   \<and> submitLoan [(''mobile'', JStr ''9999999999''), (''City'', JStr ''Pune'')]
      \<lparr>fullYear = 2024, monthIndex = 0, dayOfMonth = 5\<rparr> ''2024-01-05T10:00:00.000Z'' False True
      ([''9999999999'' \<mapsto> \<lparr>otp = ''123456'', timestamp = 0, attempts = 0, verified = True\<rparr>], Map.empty)
    = (SubmitFailed IOError,
       [''9999999999'' \<mapsto> \<lparr>otp = ''123456'', timestamp = 0, attempts = 0, verified = True\<rparr>], Map.empty)
   \<and> submitLoan [(''mobile'', JStr ''9999999999''), (''City'', JStr ''Pune'')]
      \<lparr>fullYear = 2024, monthIndex = 0, dayOfMonth = 5\<rparr> ''2024-01-05T10:00:00.000Z'' True True
      (Map.empty, Map.empty)
    = (NotVerified, Map.empty, Map.empty)"
proof -
  have b: "objGet [(''mobile'', JStr ''9999999999''), (''City'', JStr ''Pune'')] ''mobile'' = JStr ''9999999999''"
    by simp
  show ?thesis
    using submitLoan_consume [OF b, of
        "[''9999999999'' \<mapsto> \<lparr>otp = ''123456'', timestamp = 0, attempts = 0, verified = False\<rparr>]"
        "\<lparr>fullYear = 2024, monthIndex = 0, dayOfMonth = 5\<rparr>" "''2024-01-05T10:00:00.000Z''" True True Map.empty]
      submitLoan_consume [OF b, of
        "[''9999999999'' \<mapsto> \<lparr>otp = ''123456'', timestamp = 0, attempts = 0, verified = True\<rparr>]"
        "\<lparr>fullYear = 2024, monthIndex = 0, dayOfMonth = 5\<rparr>" "''2024-01-05T10:00:00.000Z''" True True Map.empty]
      submitLoan_consume [OF b, of
        "[''9999999999'' \<mapsto> \<lparr>otp = ''123456'', timestamp = 0, attempts = 0, verified = True\<rparr>]"
        "\<lparr>fullYear = 2024, monthIndex = 0, dayOfMonth = 5\<rparr>" "''2024-01-05T10:00:00.000Z''" False True Map.empty]
      submitLoan_consume [OF b, of Map.empty
        "\<lparr>fullYear = 2024, monthIndex = 0, dayOfMonth = 5\<rparr>" "''2024-01-05T10:00:00.000Z''" True True Map.empty]
    by simp
qed

text \<open>An unverified record is still in the store after the rejected submission, and a
  verified record is still there after a submission whose append failed.\<close>

theorem submitLoan_consume_counterexample:
  "submitLoan [(''mobile'', JStr ''9999999999''), (''City'', JStr ''Pune'')]
      \<lparr>fullYear = 2024, monthIndex = 0, dayOfMonth = 5\<rparr> ''2024-01-05T10:00:00.000Z'' True True
      ([''9999999999'' \<mapsto> \<lparr>otp = ''123456'', timestamp = 0, attempts = 0, verified = False\<rparr>], Map.empty)
    = (NotVerified,
       [''9999999999'' \<mapsto> \<lparr>otp = ''123456'', timestamp = 0, attempts = 0, verified = False\<rparr>], Map.empty)
   \<and> submitLoan [(''mobile'', JStr ''9999999999''), (''City'', JStr ''Pune'')]
      \<lparr>fullYear = 2024, monthIndex = 0, dayOfMonth = 5\<rparr> ''2024-01-05T10:00:00.000Z'' False True
      ([''9999999999'' \<mapsto> \<lparr>otp = ''123456'', timestamp = 0, attempts = 0, verified = True\<rparr>], Map.empty)
    = (SubmitFailed IOError,
       [''9999999999'' \<mapsto> \<lparr>otp = ''123456'', timestamp = 0, attempts = 0, verified = True\<rparr>], Map.empty)"
  by (simp add: submitLoan_def appendToDailyExcel_eq otpDataOf_def)

lemma sendOtp_after_cooldown:
  assumes "isMobile m" and "store m = Some d" and "\<not> now - timestamp d < OTP_RESEND_COOLDOWN"
  shows "sendOtp now rnd (Some m) store = sendOtp now rnd (Some m) (store(m := None))"
proof -
  from assms(1) have "m \<noteq> []" by (auto simp: isMobile_def)
  with assms show ?thesis by (simp add: sendOtp_def Let_def)
qed

text \<open>
  Claim C4, as amended. A record older than ten minutes is treated as absent by
  \<open>/verify-otp\<close>, which removes it and answers \<open>OTP expired\<close>, and by \<open>/send-otp\<close>, which
  acts as on a store without it. \<open>/submit-loan\<close> does not read the age: its response is
  the one it gives for the same record issued just now, so a verified record is
  accepted, and removed, however old it is.
\<close>

theorem expired_record:
  assumes "isMobile m" and "c \<noteq> []" and "store m = Some d"
    and "now - timestamp d > 10 * 60 * 1000"
    and "objGet body ''mobile'' = JStr m"
  shows "verifyOtp now (Some m) (Some c) store = (Expired, store(m := None))
       \<and> sendOtp now rnd (Some m) store = sendOtp now rnd (Some m) (store(m := None))
       \<and> fst (submitLoan body date nowIso writeOk smtp (store, fs))
           = fst (submitLoan body date nowIso writeOk smtp (store(m \<mapsto> d\<lparr>timestamp := now\<rparr>), fs))
       \<and> (verified d \<and> writeOk \<longrightarrow>
            fst (submitLoan body date nowIso writeOk smtp (store, fs))
              = Accepted (basename (pathJoin DATA_DIR (todayFilename date))) smtp
                  (if smtp then None else Some ''Error: SMTP credentials missing in env'')
            \<and> fst (snd (submitLoan body date nowIso writeOk smtp (store, fs))) = store(m := None))"
proof -
  from assms(1) have m: "m \<noteq> []" by (auto simp: isMobile_def)
  have a: "verifyOtp now (Some m) (Some c) store = (Expired, store(m := None))"
    using m assms(2-4) by (auto simp: verifyOtp_def)
  have b: "sendOtp now rnd (Some m) store = sendOtp now rnd (Some m) (store(m := None))"
    using assms(1,3,4) by (intro sendOtp_after_cooldown) (auto simp: OTP_RESEND_COOLDOWN_def)
  show ?thesis
    using a b assms(3) by (simp add: submitLoan_cases [OF assms(5)])
qed

theorem expired_record_witness:
  "verifyOtp 660001 (Some ''9999999999'') (Some ''123456'')
      [''9999999999'' \<mapsto> \<lparr>otp = ''123456'', timestamp = 0, attempts = 0, verified = True\<rparr>]
     = (Expired, Map.empty)
   \<and> fst (snd (submitLoan [(''mobile'', JStr ''9999999999''), (''City'', JStr ''Pune'')]
      \<lparr>fullYear = 1970, monthIndex = 0, dayOfMonth = 1\<rparr> ''1970-01-01T00:11:00.001Z'' True True
      ([''9999999999'' \<mapsto> \<lparr>otp = ''123456'', timestamp = 0, attempts = 0, verified = True\<rparr>], Map.empty)))
     = Map.empty"
proof -
  have m: "isMobile ''9999999999''" by (simp add: isMobile_def)
  have b: "objGet [(''mobile'', JStr ''9999999999''), (''City'', JStr ''Pune'')] ''mobile'' = JStr ''9999999999''"
    by simp
  show ?thesis
    using expired_record [OF m _ _ _ b, of "''123456''"
        "[''9999999999'' \<mapsto> \<lparr>otp = ''123456'', timestamp = 0, attempts = 0, verified = True\<rparr>]"
        "\<lparr>otp = ''123456'', timestamp = 0, attempts = 0, verified = True\<rparr>" 660001
        0 "\<lparr>fullYear = 1970, monthIndex = 0, dayOfMonth = 1\<rparr>" "''1970-01-01T00:11:00.001Z''" True True Map.empty]
    by simp
qed

text \<open>Eleven minutes after issuance \<open>/verify-otp\<close> answers \<open>OTP expired\<close> for the record,
  yet \<open>/submit-loan\<close> accepts it, while it rejects a number without a record.\<close>

theorem expired_record_counterexample:
  "fst (verifyOtp 660001 (Some ''9999999999'') (Some ''123456'')
      [''9999999999'' \<mapsto> \<lparr>otp = ''123456'', timestamp = 0, attempts = 0, verified = True\<rparr>]) = Expired
   \<and> fst (submitLoan [(''mobile'', JStr ''9999999999''), (''City'', JStr ''Pune'')]
      \<lparr>fullYear = 1970, monthIndex = 0, dayOfMonth = 1\<rparr> ''1970-01-01T00:11:00.001Z'' True True
      ([''9999999999'' \<mapsto> \<lparr>otp = ''123456'', timestamp = 0, attempts = 0, verified = True\<rparr>], Map.empty))
    = Accepted ''1970-01-01.xlsx'' True None
   \<and> fst (submitLoan [(''mobile'', JStr ''9999999999''), (''City'', JStr ''Pune'')]
      \<lparr>fullYear = 1970, monthIndex = 0, dayOfMonth = 1\<rparr> ''1970-01-01T00:11:00.001Z'' True True
      (Map.empty, Map.empty))
    = NotVerified"
  by (simp add: verifyOtp_def submitLoan_def appendToDailyExcel_eq otpDataOf_def otpDelete_def
      makeTransporter_def basename_def pathJoin_def DATA_DIR_def todayFilename_def showInt_def
      showNat.simps padStart_def)

section \<open>Properties of the admission gate\<close>

text \<open>In every run \<open>emailActive\<close> counts the sends in flight, and the queue holds the
  callers queued and not yet resumed, in the order of their arrival.\<close>

lemma gateRun_counts:
  assumes "gateRun conc g inFlight queued resumed"
  shows "emailActive g = int (length inFlight) \<and> queued = resumed @ emailQueue g"
  using assms
proof (induction rule: gateRun.induct)
  case start
  then show ?case by simp
next
  case (acquire g inFlight queued resumed w admitted g')
  then show ?case
    by (auto simp: acquireEmailSlot_def split: if_splits)
next
  case (release g inFlight queued resumed w handed g')
  from release.IH have act: "emailActive g = int (length inFlight)"
    and logs: "queued = resumed @ emailQueue g"
    by simp_all
  show ?case
  proof (cases "inFlight = []")
    case True
    with release.hyps(3) act logs show ?thesis
      by (auto simp: releaseEmailSlot_def Let_def split: list.splits)
  next
    case False
    with release.hyps(2) have w: "w \<in> set inFlight" by simp
    then have len: "length (remove1 w inFlight) = length inFlight - 1"
      by (simp add: length_remove1)
    from False have dec: "int (length inFlight - 1) = int (length inFlight) - 1"
      and suc: "Suc (length inFlight - 1) = length inFlight"
      and pos: "0 < length inFlight"
      by (cases inFlight; simp)+
    show ?thesis
    proof (cases "emailQueue g")
      case Nil
      with release.hyps(3) act pos have "handed = None"
        and "g' = g\<lparr>emailActive := int (length inFlight) - 1\<rparr>"
        by (auto simp: releaseEmailSlot_def Let_def max_def)
      with Nil len dec logs show ?thesis by simp
    next
      case (Cons v vs)
      with release.hyps(3) act pos have "handed = Some v"
        and "g' = g\<lparr>emailQueue := vs\<rparr>"
        by (auto simp: releaseEmailSlot_def Let_def max_def)
      with Cons len suc act logs show ?thesis by simp
    qed
  qed
qed





section \<open>Properties of the retrying send\<close>

lemma sendWithRetryLoop_all_fail:
  assumes "\<forall>j. i \<le> j \<and> j < n \<longrightarrow> isl (sendMail j)"
  shows "sendWithRetryLoop sendMail n i lastErr tr =
           (RetryFailed (if i < n then Some (projl (sendMail (n - 1))) else lastErr),
            tr @ concat (map (\<lambda>j. [SendMail j, Sleep (2 ^ j * 1000)]) [i ..< n]))"
  using assms
proof (induction sendMail n i lastErr tr rule: sendWithRetryLoop.induct)
  case (1 sendMail n i lastErr tr)
  show ?case
  proof (cases "i < n")
    case False
    then show ?thesis by (simp add: sendWithRetryLoop.simps)
  next
    case True
    with "1.prems" have "isl (sendMail i)" by simp
    then obtain err where e: "sendMail i = Inl err" by (cases "sendMail i") auto
    have rest: "\<forall>j. i + 1 \<le> j \<and> j < n \<longrightarrow> isl (sendMail j)" using "1.prems" by simp
    have last: "\<not> i + 1 < n \<Longrightarrow> n - 1 = i" using True by simp
    show ?thesis
      using "1.IH" [OF True e rest] True e last
      by (subst sendWithRetryLoop.simps) (auto simp: upt_conv_Cons)
  qed
qed

lemma sendWithRetryLoop_success:
  assumes "i \<le> k" and "k < n" and "\<forall>j. i \<le> j \<and> j < k \<longrightarrow> isl (sendMail j)"
    and "sendMail k = Inr info"
  shows "sendWithRetryLoop sendMail n i lastErr tr =
           (RetryOk info,
            tr @ concat (map (\<lambda>j. [SendMail j, Sleep (2 ^ j * 1000)]) [i ..< k]) @ [SendMail k])"
  using assms
proof (induction sendMail n i lastErr tr rule: sendWithRetryLoop.induct)
  case (1 sendMail n i lastErr tr)
  from "1.prems" have lt: "i < n" by simp
  show ?case
  proof (cases "i = k")
    case True
    with "1.prems" lt show ?thesis by (subst sendWithRetryLoop.simps) simp
  next
    case False
    with "1.prems" have ik: "i < k" by simp
    with "1.prems" have "isl (sendMail i)" by simp
    then obtain err where e: "sendMail i = Inl err" by (cases "sendMail i") auto
    have rest: "\<forall>j. i + 1 \<le> j \<and> j < k \<longrightarrow> isl (sendMail j)" using "1.prems" by simp
    show ?thesis
      using "1.IH" [OF lt e _ "1.prems"(2) rest "1.prems"(4)] ik lt e
      by (subst sendWithRetryLoop.simps) (simp add: upt_conv_Cons)
  qed
qed

lemma sendWithRetryLoop_count:
  "length (filter (\<lambda>e. case e of SendMail i \<Rightarrow> True | Sleep ms \<Rightarrow> False)
      (snd (sendWithRetryLoop sendMail n i lastErr tr)))
   \<le> length (filter (\<lambda>e. case e of SendMail i \<Rightarrow> True | Sleep ms \<Rightarrow> False) tr) + (n - i)"
proof (induction sendMail n i lastErr tr rule: sendWithRetryLoop.induct)
  case (1 sendMail n i lastErr tr)
  show ?case
  proof (cases "i < n")
    case False
    then show ?thesis by (simp add: sendWithRetryLoop.simps)
  next
    case True
    show ?thesis
    proof (cases "sendMail i")
      case (Inr info)
      with True show ?thesis by (subst sendWithRetryLoop.simps) simp
    next
      case (Inl err)
      with True "1.IH" [OF True Inl] show ?thesis
        by (subst sendWithRetryLoop.simps) simp
    qed
  qed
qed

lemma sendDailyEmailAdmitted_release:
  "snd (snd (sendDailyEmailAdmitted sendMail n fname g)) = releaseEmailSlot g"
  by (simp add: sendDailyEmailAdmitted_def Let_def split: prod.splits)

text \<open>The \<open>finally\<close> of a send that is in flight: with nobody waiting the slot is
  freed, \<open>emailActive\<close> going down by one; else the first caller of the queue is
  resumed and takes the slot. Either way the sender is in flight no longer, and the
  state is again one of a run.\<close>

lemma sendDailyEmailAdmitted_frees:
  assumes run: "gateRun conc g inFlight queued resumed" and w: "w \<in> set inFlight"
  shows "snd (snd (sendDailyEmailAdmitted sendMail n fname g)) =
           (case emailQueue g of
              [] \<Rightarrow> (None, g\<lparr>emailActive := int (length inFlight) - 1\<rparr>)
            | v # vs \<Rightarrow> (Some v, g\<lparr>emailQueue := vs\<rparr>))
       \<and> gateRun conc (snd (snd (snd (sendDailyEmailAdmitted sendMail n fname g))))
           (remove1 w inFlight @ (case emailQueue g of [] \<Rightarrow> [] | v # vs \<Rightarrow> [v])) queued
           (resumed @ (case emailQueue g of [] \<Rightarrow> [] | v # vs \<Rightarrow> [v]))"
proof -
  from gateRun_counts [OF run] have act: "emailActive g = int (length inFlight)" by simp
  from w have pos: "0 < length inFlight" by (rule length_pos_if_in_set)
  from w have w': "inFlight = [] \<or> w \<in> set inFlight" by simp
  have rel: "releaseEmailSlot g =
           (case emailQueue g of
              [] \<Rightarrow> (None, g\<lparr>emailActive := int (length inFlight) - 1\<rparr>)
            | v # vs \<Rightarrow> (Some v, g\<lparr>emailQueue := vs\<rparr>))"
    using act pos by (simp add: releaseEmailSlot_def Let_def max_def split: list.splits)
  have fst_rel: "fst (releaseEmailSlot g) = (case emailQueue g of [] \<Rightarrow> None | v # vs \<Rightarrow> Some v)"
    using rel by (simp split: list.splits)
  have "gateRun conc (snd (releaseEmailSlot g))
           (remove1 w inFlight @ (case fst (releaseEmailSlot g) of None \<Rightarrow> [] | Some v \<Rightarrow> [v])) queued
           (resumed @ (case fst (releaseEmailSlot g) of None \<Rightarrow> [] | Some v \<Rightarrow> [v]))"
    using gateRun.release [OF run w', of "fst (releaseEmailSlot g)" "snd (releaseEmailSlot g)"]
    by simp
  then have "gateRun conc (snd (releaseEmailSlot g))
           (remove1 w inFlight @ (case emailQueue g of [] \<Rightarrow> [] | v # vs \<Rightarrow> [v])) queued
           (resumed @ (case emailQueue g of [] \<Rightarrow> [] | v # vs \<Rightarrow> [v]))"
    by (simp add: fst_rel split: list.splits)
  with rel show ?thesis
    by (simp add: sendDailyEmailAdmitted_release [of sendMail n fname g, symmetric])
qed

text \<open>
  Claim C8. An admitted send with \<open>n\<close> attempts (3 by default) calls \<open>sendMail\<close> at most
  \<open>n\<close> times. When call \<open>k < n\<close> is the first that succeeds, no later call is made and
  the result is the success with that call's \<open>info\<close>. After the failed call number \<open>j\<close>,
  counted from 0 as the loop counts, the sender sleeps \<open>2^j * 1000\<close> ms: 1000 after the
  first failure, 2000 after the second. When all \<open>n\<close> calls fail the result is the
  failure with the error of the last call. In every case the \<open>finally\<close> releases the
  slot of the send, which is one of the sends in flight in a state of the gate: if
  nobody waits, \<open>emailActive\<close> goes down by one, and if callers wait, the first of the
  queue is resumed and takes the slot; the sender is then in flight no longer.
\<close>

theorem sendWithRetry_policy:
  "(\<forall>k info. k < n \<and> (\<forall>j<k. isl (sendMail j)) \<and> sendMail k = Inr info \<longrightarrow>
       sendWithRetry sendMail n =
         (RetryOk info, concat (map (\<lambda>j. [SendMail j, Sleep (2 ^ j * 1000)]) [0 ..< k]) @ [SendMail k])
       \<and> fst (sendDailyEmailAdmitted sendMail n fname g) = Delivered fname info)
   \<and> ((\<forall>j<n. isl (sendMail j)) \<longrightarrow>
       sendWithRetry sendMail n =
         (RetryFailed (if n = 0 then None else Some (projl (sendMail (n - 1)))),
          concat (map (\<lambda>j. [SendMail j, Sleep (2 ^ j * 1000)]) [0 ..< n]))
       \<and> fst (sendDailyEmailAdmitted sendMail n fname g)
           = Failed (if n = 0 then ''null'' else projl (sendMail (n - 1))))
   \<and> length (filter (\<lambda>e. case e of SendMail i \<Rightarrow> True | Sleep ms \<Rightarrow> False)
        (snd (sendWithRetry sendMail n))) \<le> n
   \<and> snd (snd (sendDailyEmailAdmitted sendMail n fname g)) = releaseEmailSlot g
   \<and> (\<forall>conc inFlight queued resumed w.
        gateRun conc g inFlight queued resumed \<and> w \<in> set inFlight \<longrightarrow>
          snd (snd (sendDailyEmailAdmitted sendMail n fname g)) =
            (case emailQueue g of
               [] \<Rightarrow> (None, g\<lparr>emailActive := int (length inFlight) - 1\<rparr>)
             | v # vs \<Rightarrow> (Some v, g\<lparr>emailQueue := vs\<rparr>))
          \<and> gateRun conc (snd (snd (snd (sendDailyEmailAdmitted sendMail n fname g))))
              (remove1 w inFlight @ (case emailQueue g of [] \<Rightarrow> [] | v # vs \<Rightarrow> [v])) queued
              (resumed @ (case emailQueue g of [] \<Rightarrow> [] | v # vs \<Rightarrow> [v])))"
proof -
  have ok: "sendWithRetry sendMail n =
         (RetryOk info, concat (map (\<lambda>j. [SendMail j, Sleep (2 ^ j * 1000)]) [0 ..< k]) @ [SendMail k])"
    if "k < n" and "\<forall>j<k. isl (sendMail j)" and "sendMail k = Inr info" for k info
    using sendWithRetryLoop_success [of 0 k n sendMail info None "[]"] that
    by (simp add: sendWithRetry_def)
  have bad: "sendWithRetry sendMail n =
         (RetryFailed (if n = 0 then None else Some (projl (sendMail (n - 1)))),
          concat (map (\<lambda>j. [SendMail j, Sleep (2 ^ j * 1000)]) [0 ..< n]))"
    if "\<forall>j<n. isl (sendMail j)"
    using sendWithRetryLoop_all_fail [of 0 n sendMail None "[]"] that
    by (simp add: sendWithRetry_def)
  have cnt: "length (filter (\<lambda>e. case e of SendMail i \<Rightarrow> True | Sleep ms \<Rightarrow> False)
        (snd (sendWithRetry sendMail n))) \<le> n"
    using sendWithRetryLoop_count [of sendMail n 0 None "[]"] by (simp add: sendWithRetry_def)
  have rel: "snd (snd (sendDailyEmailAdmitted sendMail n fname g)) = releaseEmailSlot g"
    by (rule sendDailyEmailAdmitted_release)
  have ok': "fst (sendDailyEmailAdmitted sendMail n fname g) = Delivered fname info"
    if "k < n" and "\<forall>j<k. isl (sendMail j)" and "sendMail k = Inr info" for k info
    using ok [OF that] by (simp add: sendDailyEmailAdmitted_def split: prod.splits)
  have bad': "fst (sendDailyEmailAdmitted sendMail n fname g)
           = Failed (if n = 0 then ''null'' else projl (sendMail (n - 1)))"
    if "\<forall>j<n. isl (sendMail j)"
    using bad [OF that] by (simp add: sendDailyEmailAdmitted_def split: prod.splits)
  have free: "\<forall>conc inFlight queued resumed w.
        gateRun conc g inFlight queued resumed \<and> w \<in> set inFlight \<longrightarrow>
          snd (snd (sendDailyEmailAdmitted sendMail n fname g)) =
            (case emailQueue g of
               [] \<Rightarrow> (None, g\<lparr>emailActive := int (length inFlight) - 1\<rparr>)
             | v # vs \<Rightarrow> (Some v, g\<lparr>emailQueue := vs\<rparr>))
          \<and> gateRun conc (snd (snd (snd (sendDailyEmailAdmitted sendMail n fname g))))
              (remove1 w inFlight @ (case emailQueue g of [] \<Rightarrow> [] | v # vs \<Rightarrow> [v])) queued
              (resumed @ (case emailQueue g of [] \<Rightarrow> [] | v # vs \<Rightarrow> [v]))"
    by (intro allI impI, elim conjE) (rule sendDailyEmailAdmitted_frees)
  from ok ok' bad bad' cnt rel free show ?thesis by blast
qed

theorem sendWithRetry_policy_witness:
  "sendWithRetry (\<lambda>i. if i < 2 then Inl ''Error: timeout'' else Inr ''250 OK'') (EMAIL_RETRIES None)
     = (RetryOk ''250 OK'', [SendMail 0, Sleep 1000, SendMail 1, Sleep 2000, SendMail 2])
   \<and> gateRun 2 \<lparr>emailActive = 2, emailQueue = [''c'']\<rparr> [''a'', ''b''] [''c''] []
   \<and> sendDailyEmailAdmitted (\<lambda>i. if i < 2 then Inl ''Error: timeout'' else Inr ''250 OK'')
       (EMAIL_RETRIES None) ''server/data/2024-01-05.xlsx'' \<lparr>emailActive = 2, emailQueue = [''c'']\<rparr>
     = (Delivered ''server/data/2024-01-05.xlsx'' ''250 OK'',
        [SendMail 0, Sleep 1000, SendMail 1, Sleep 2000, SendMail 2],
        Some ''c'', \<lparr>emailActive = 2, emailQueue = []\<rparr>)
   \<and> sendWithRetry (\<lambda>i. Inl (''Error: refused '' @ showNat i) :: string + string) (EMAIL_RETRIES None)
     = (RetryFailed (Some ''Error: refused 2''),
        [SendMail 0, Sleep 1000, SendMail 1, Sleep 2000, SendMail 2, Sleep 4000])
   \<and> gateRun 2 \<lparr>emailActive = 1, emailQueue = ([] :: string list)\<rparr> [''a''] [] []
   \<and> sendDailyEmailAdmitted (\<lambda>i. Inl (''Error: refused '' @ showNat i) :: string + string)
       (EMAIL_RETRIES None) ''server/data/2024-01-05.xlsx''
       \<lparr>emailActive = 1, emailQueue = ([] :: string list)\<rparr>
     = (Failed ''Error: refused 2'',
        [SendMail 0, Sleep 1000, SendMail 1, Sleep 2000, SendMail 2, Sleep 4000],
        None, \<lparr>emailActive = 0, emailQueue = []\<rparr>)"
proof -
  have n: "EMAIL_RETRIES None = 3" by (simp add: EMAIL_RETRIES_def)
  have u: "[0 ..< 3] = [0, 1, 2]" "[0 ..< 2] = [0, 1]" by (simp_all add: upt_conv_Cons)
  have r0: "gateRun 2 \<lparr>emailActive = 0, emailQueue = ([] :: string list)\<rparr> [] [] []"
    by (rule gateRun.start)
  have r1: "gateRun 2 \<lparr>emailActive = 1, emailQueue = ([] :: string list)\<rparr> [''a''] [] []"
    using gateRun.acquire [OF r0, of "''a''" True "\<lparr>emailActive = 1, emailQueue = []\<rparr>"]
    by (simp add: acquireEmailSlot_def)
  have r2: "gateRun 2 \<lparr>emailActive = 2, emailQueue = ([] :: string list)\<rparr> [''a'', ''b''] [] []"
    using gateRun.acquire [OF r1, of "''b''" True "\<lparr>emailActive = 2, emailQueue = []\<rparr>"]
    by (simp add: acquireEmailSlot_def)
  have r3: "gateRun 2 \<lparr>emailActive = 2, emailQueue = [''c'']\<rparr> [''a'', ''b''] [''c''] []"
    using gateRun.acquire [OF r2, of "''c''" False "\<lparr>emailActive = 2, emailQueue = [''c'']\<rparr>"]
    by (simp add: acquireEmailSlot_def)
  note a = sendWithRetry_policy [of 3 "\<lambda>i. if i < 2 then Inl ''Error: timeout'' else Inr ''250 OK''"
      "''server/data/2024-01-05.xlsx''" "\<lparr>emailActive = 2, emailQueue = [''c'']\<rparr>"]
  note b = sendWithRetry_policy [of 3 "\<lambda>i. Inl (''Error: refused '' @ showNat i) :: string + string"
      "''server/data/2024-01-05.xlsx''" "\<lparr>emailActive = 1, emailQueue = ([] :: string list)\<rparr>"]
  from a [THEN conjunct1, rule_format, of 2 "''250 OK''"]
  have a1: "sendWithRetry (\<lambda>i. if i < 2 then Inl ''Error: timeout'' else Inr ''250 OK'') 3
     = (RetryOk ''250 OK'', [SendMail 0, Sleep 1000, SendMail 1, Sleep 2000, SendMail 2])"
    and a2: "fst (sendDailyEmailAdmitted (\<lambda>i. if i < 2 then Inl ''Error: timeout'' else Inr ''250 OK'')
       3 ''server/data/2024-01-05.xlsx'' \<lparr>emailActive = 2, emailQueue = [''c'']\<rparr>)
       = Delivered ''server/data/2024-01-05.xlsx'' ''250 OK''"
    by (simp_all add: u)
  from a [THEN conjunct2, THEN conjunct2, THEN conjunct2, THEN conjunct2, rule_format,
      of 2 "[''a'', ''b'']" "[''c'']" "[]" "''a''"] r3
  have a3: "snd (snd (sendDailyEmailAdmitted (\<lambda>i. if i < 2 then Inl ''Error: timeout'' else Inr ''250 OK'')
       3 ''server/data/2024-01-05.xlsx'' \<lparr>emailActive = 2, emailQueue = [''c'']\<rparr>))
       = (Some ''c'', \<lparr>emailActive = 2, emailQueue = []\<rparr>)"
    by simp
  from b [THEN conjunct2, THEN conjunct1, rule_format]
  have b1: "sendWithRetry (\<lambda>i. Inl (''Error: refused '' @ showNat i) :: string + string) 3
     = (RetryFailed (Some ''Error: refused 2''),
        [SendMail 0, Sleep 1000, SendMail 1, Sleep 2000, SendMail 2, Sleep 4000])"
    and b2: "fst (sendDailyEmailAdmitted (\<lambda>i. Inl (''Error: refused '' @ showNat i) :: string + string)
       3 ''server/data/2024-01-05.xlsx'' \<lparr>emailActive = 1, emailQueue = ([] :: string list)\<rparr>)
       = Failed ''Error: refused 2''"
    by (simp_all add: u showNat.simps)
  from b [THEN conjunct2, THEN conjunct2, THEN conjunct2, THEN conjunct2, rule_format,
      of 2 "[''a'']" "[]" "[]" "''a''"] r1
  have b3: "snd (snd (sendDailyEmailAdmitted (\<lambda>i. Inl (''Error: refused '' @ showNat i) :: string + string)
       3 ''server/data/2024-01-05.xlsx'' \<lparr>emailActive = 1, emailQueue = ([] :: string list)\<rparr>))
       = (None, \<lparr>emailActive = 0, emailQueue = []\<rparr>)"
    by simp
  have tr: "fst (snd (sendDailyEmailAdmitted sm k f gg)) = snd (sendWithRetry sm k)"
    for sm :: "nat \<Rightarrow> string + string" and k f and gg :: "string gate"
    by (simp add: sendDailyEmailAdmitted_def split: prod.splits)
  have a4: "sendDailyEmailAdmitted (\<lambda>i. if i < 2 then Inl ''Error: timeout'' else Inr ''250 OK'')
       3 ''server/data/2024-01-05.xlsx'' \<lparr>emailActive = 2, emailQueue = [''c'']\<rparr>
     = (Delivered ''server/data/2024-01-05.xlsx'' ''250 OK'',
        [SendMail 0, Sleep 1000, SendMail 1, Sleep 2000, SendMail 2],
        Some ''c'', \<lparr>emailActive = 2, emailQueue = []\<rparr>)"
    using a1 a2 a3 tr [of "\<lambda>i. if i < 2 then Inl ''Error: timeout'' else Inr ''250 OK''" 3
        "''server/data/2024-01-05.xlsx''" "\<lparr>emailActive = 2, emailQueue = [''c'']\<rparr>"]
    by (metis prod.collapse snd_conv)
  have b4: "sendDailyEmailAdmitted (\<lambda>i. Inl (''Error: refused '' @ showNat i) :: string + string)
       3 ''server/data/2024-01-05.xlsx'' \<lparr>emailActive = 1, emailQueue = ([] :: string list)\<rparr>
     = (Failed ''Error: refused 2'',
        [SendMail 0, Sleep 1000, SendMail 1, Sleep 2000, SendMail 2, Sleep 4000],
        None, \<lparr>emailActive = 0, emailQueue = []\<rparr>)"
    using b1 b2 b3 tr [of "\<lambda>i. Inl (''Error: refused '' @ showNat i)" 3
        "''server/data/2024-01-05.xlsx''" "\<lparr>emailActive = 1, emailQueue = []\<rparr>"]
    by (metis prod.collapse snd_conv)
  from a1 b1 a4 b4 r1 r3 show ?thesis by (simp add: n)
qed

section \<open>Properties of the ledger\<close>

text \<open>Since the condition \<open>false && fs.existsSync(fname)\<close> never holds, every successful
  call writes a new workbook: the header of the given record and one data row.\<close>

lemma appendToDailyExcel_one_row:
  assumes "appendToDailyExcel rcd date nowIso writeOk fs = Inr (fname, fs')"
  shows "length (dataRowsOf fs' fname) = 1
       \<and> headerOf fs' fname
           = map JStr (filter (\<lambda>h. h \<noteq> []) (map trim (objectKeys rcd)) @ [''added_at''])"
  using assms
  by (auto simp: appendToDailyExcel_eq dataRowsOf_def headerOf_def freshWorkbook_def Let_def
      getRowValues_def split: if_splits)

text \<open>
  Claim C1, on the code. The claim asks for exactly \<open>K\<close> data rows after \<open>K\<close> successful
  appends to one date, no earlier row being lost. The code, run twice on 2024-01-05:
  the first append creates the file with one data row, and the second append replaces
  the file, whose only data row is then the second record. The first row is lost.
\<close>

theorem appendToDailyExcel_second_append:
  "appendToDailyExcel [(''LoanAmount'', JNum 50000), (''Mobile'', JStr ''9999999999'')]
      \<lparr>fullYear = 2024, monthIndex = 0, dayOfMonth = 5\<rparr> ''2024-01-05T10:00:00.000Z'' True Map.empty
    = Inr (''server/data/2024-01-05.xlsx'',
        [''server/data/2024-01-05.xlsx'' \<mapsto>
           [\<lparr>name = ''submissions'',
              rows = [[JStr ''LoanAmount'', JStr ''Mobile'', JStr ''added_at''],
                      [JNum 50000, JStr ''9999999999'', JStr ''2024-01-05T10:00:00.000Z'']]\<rparr>]])
   \<and> appendToDailyExcel [(''LoanAmount'', JNum 75000), (''Mobile'', JStr ''8888888888'')]
      \<lparr>fullYear = 2024, monthIndex = 0, dayOfMonth = 5\<rparr> ''2024-01-05T11:00:00.000Z'' True
        [''server/data/2024-01-05.xlsx'' \<mapsto>
           [\<lparr>name = ''submissions'',
              rows = [[JStr ''LoanAmount'', JStr ''Mobile'', JStr ''added_at''],
                      [JNum 50000, JStr ''9999999999'', JStr ''2024-01-05T10:00:00.000Z'']]\<rparr>]]
    = Inr (''server/data/2024-01-05.xlsx'',
        [''server/data/2024-01-05.xlsx'' \<mapsto>
           [\<lparr>name = ''submissions'',
              rows = [[JStr ''LoanAmount'', JStr ''Mobile'', JStr ''added_at''],
                      [JNum 75000, JStr ''8888888888'', JStr ''2024-01-05T11:00:00.000Z'']]\<rparr>]])
   \<and> dataRowsOf
        [''server/data/2024-01-05.xlsx'' \<mapsto>
           [\<lparr>name = ''submissions'',
              rows = [[JStr ''LoanAmount'', JStr ''Mobile'', JStr ''added_at''],
                      [JNum 75000, JStr ''8888888888'', JStr ''2024-01-05T11:00:00.000Z'']]\<rparr>]]
        ''server/data/2024-01-05.xlsx''
      = [[JNum 75000, JStr ''8888888888'', JStr ''2024-01-05T11:00:00.000Z'']]"
  by (simp add: appendToDailyExcel_eq freshWorkbook_def objectKeys_def trim_def isWhitespace_def
      orEmpty_def pathJoin_def DATA_DIR_def todayFilename_def showInt_def showNat.simps padStart_def
      dataRowsOf_def)

text \<open>
  Claim C2, on the code. The claim asks that an append with a new field keep the
  existing header and put the new column before \<open>added_at\<close>, the existing rows
  showing an empty cell there. The code, given the file with the header
  \<open>LoanAmount, Mobile, added_at\<close> and a record with \<open>Mobile\<close> and the new field \<open>City\<close>:
  the header becomes \<open>Mobile, City, added_at\<close>, without \<open>LoanAmount\<close>, and the existing
  row is gone.
\<close>

theorem appendToDailyExcel_new_field:
  "appendToDailyExcel [(''Mobile'', JStr ''8888888888''), (''City'', JStr ''Pune'')]
      \<lparr>fullYear = 2024, monthIndex = 0, dayOfMonth = 5\<rparr> ''2024-01-05T11:00:00.000Z'' True
        [''server/data/2024-01-05.xlsx'' \<mapsto>
           [\<lparr>name = ''submissions'',
              rows = [[JStr ''LoanAmount'', JStr ''Mobile'', JStr ''added_at''],
                      [JNum 50000, JStr ''9999999999'', JStr ''2024-01-05T10:00:00.000Z'']]\<rparr>]]
    = Inr (''server/data/2024-01-05.xlsx'',
        [''server/data/2024-01-05.xlsx'' \<mapsto>
           [\<lparr>name = ''submissions'',
              rows = [[JStr ''Mobile'', JStr ''City'', JStr ''added_at''],
                      [JStr ''8888888888'', JStr ''Pune'', JStr ''2024-01-05T11:00:00.000Z'']]\<rparr>]])
   \<and> headerOf
        [''server/data/2024-01-05.xlsx'' \<mapsto>
           [\<lparr>name = ''submissions'',
              rows = [[JStr ''Mobile'', JStr ''City'', JStr ''added_at''],
                      [JStr ''8888888888'', JStr ''Pune'', JStr ''2024-01-05T11:00:00.000Z'']]\<rparr>]]
        ''server/data/2024-01-05.xlsx''
      \<noteq> [JStr ''LoanAmount'', JStr ''Mobile'', JStr ''City'', JStr ''added_at'']"
  by (simp add: appendToDailyExcel_eq freshWorkbook_def objectKeys_def trim_def isWhitespace_def
      orEmpty_def pathJoin_def DATA_DIR_def todayFilename_def showInt_def showNat.simps padStart_def
      headerOf_def getRowValues_def)

text \<open>The branch that the condition switches off, on the same file and record: it keeps
  the existing row and adds the column \<open>City\<close>, but after \<open>added_at\<close>.\<close>

lemma mergeIntoWorkbook_example:
  "mergeIntoWorkbook
     [\<lparr>name = ''submissions'',
        rows = [[JStr ''LoanAmount'', JStr ''Mobile'', JStr ''added_at''],
                [JNum 50000, JStr ''9999999999'', JStr ''2024-01-05T10:00:00.000Z'']]\<rparr>]
     [(''Mobile'', JStr ''8888888888''), (''City'', JStr ''Pune'')] ''2024-01-05T11:00:00.000Z''
   = Inr [\<lparr>name = ''submissions'',
       rows = [[JStr ''LoanAmount'', JStr ''Mobile'', JStr ''added_at'', JStr ''City''],
               [JNum 50000, JStr ''9999999999'', JStr ''2024-01-05T10:00:00.000Z'', JStr []],
               [JStr [], JStr ''8888888888'', JStr ''2024-01-05T11:00:00.000Z'', JStr ''Pune'']]\<rparr>]"
  by (simp add: mergeIntoWorkbook_def getRowValues_def existingHeadersOf_def arrayFilter_def
      arrayMap_def mergedHeaders_def objectKeys_def uniqueInOrder_def trim_def isWhitespace_def
      existingDataOf_def rowCount_def cellAt_def objectValues_def orEmpty_def Let_def
      upt_conv_Cons)

section \<open>Properties of the repair\<close>

text \<open>A data row whose second cell is missing too: after the shift its array starts
  with a hole, and \<open>addRow\<close> writes its value one column further to the left.\<close>

lemma repairSheet_leading_hole:
  "repairSheet \<lparr>name = ''submissions'',
       rows = [[JUndefined, JStr ''Mobile'', JStr ''City''],
               [JUndefined, JUndefined, JStr ''Pune'']]\<rparr>
   = Some \<lparr>name = ''submissions'',
       rows = [[JStr ''Mobile'', JStr ''City''], [JStr ''Pune'']]\<rparr>"
  by (simp add: repairSheet_def shiftedHeader_def getRowValues_def cellAt_def addRowValues_def
      arrayMap_def arrayFilter_def trim_def isWhitespace_def rowCount_def Let_def upt_conv_Cons)









end
